theory Spec2Isabelle
  imports Complex_Main "HOL-Library.Word" "HOL-Library.Log_Nat"
begin

section \<open>Machine integers\<close>

text \<open>
  Go's \<^verbatim>\<open>int\<close> is a two's-complement machine integer; on the 64-bit targets the
  module is built for it has 64 bits. Addition and subtraction wrap around, comparison
  is signed (\<open>\<le>s\<close>, \<open><s\<close>), and \<open>sint\<close> reads the mathematical value.
\<close>

type_synonym go_int = "64 word"

section \<open>The token budget\<close>

text \<open>
  \<^verbatim>\<open>var ( MaxTokens = 4096 )\<close>: a package-level variable that no statement of the
  program assigns to.
\<close>

definition MaxTokens :: go_int where
  "MaxTokens = 4096"

section \<open>SessionStats\<close>

record SessionStats =
  totalTokens :: go_int
  messageCount :: go_int
  remainingTokens :: go_int

text \<open>
  \<^verbatim>\<open>func (s *SessionStats) update(newTokens int)\<close>: the receiver is mutated in place;
  the model returns the new value. The third assignment reads the total the first one
  has just written.
\<close>

definition update :: "SessionStats \<Rightarrow> go_int \<Rightarrow> SessionStats" where
  "update s newTokens =
     (let s1 = s\<lparr>totalTokens := totalTokens s + newTokens\<rparr>;
          s2 = s1\<lparr>messageCount := messageCount s1 + 1\<rparr>
      in s2\<lparr>remainingTokens := MaxTokens - totalTokens s2\<rparr>)"

text \<open>
  \<^verbatim>\<open>stats := &SessionStats{ remainingTokens: MaxTokens }\<close>: the fields that are not
  named take Go's zero value.
\<close>

definition fresh_stats :: SessionStats where
  "fresh_stats = \<lparr>totalTokens = 0, messageCount = 0, remainingTokens = MaxTokens\<rparr>"

section \<open>Console formatting\<close>

text \<open>
  The verbs of \<^verbatim>\<open>fmt.Printf\<close> the program uses. \<^verbatim>\<open>%d\<close> writes a signed decimal numeral.
\<close>

definition digit_char :: "nat \<Rightarrow> char" where
  "digit_char n = ''0123456789'' ! n"

function digits10 :: "nat \<Rightarrow> string" where
  "digits10 n = (if n < 10 then [digit_char n] else digits10 (n div 10) @ [digit_char (n mod 10)])"
  by pat_completeness auto
termination
  by (relation "measure (\<lambda>n. n)") auto

declare digits10.simps [simp del]

definition fmt_int :: "int \<Rightarrow> string" where
  "fmt_int i = (if i < 0 then ''-'' @ digits10 (nat (- i)) else digits10 (nat i))"

definition fmt_d :: "go_int \<Rightarrow> string" where
  "fmt_d w = fmt_int (sint w)"

section \<open>float64\<close>

text \<open>
  \<^verbatim>\<open>display\<close> converts two ints to \<^verbatim>\<open>float64\<close>, divides, and multiplies by 100. A finite
  IEEE 754 binary64 value is a rational number, and each operation returns the exact
  result rounded to the nearest value with a 53-bit significand, ties to the even
  significand. Every value \<^verbatim>\<open>display\<close> computes is zero or lies between \<open>2\<^sup>-\<^sup>1\<^sup>2\<close> and
  \<open>2\<^sup>7\<^sup>0\<close> in magnitude, far inside the normal range, so overflow, subnormal numbers,
  infinities and NaN are not modelled.
\<close>

type_synonym float64 = rat

text \<open>Rounding to the nearest integer, ties to the even one.\<close>

definition round_half_even :: "rat \<Rightarrow> int" where
  "round_half_even x =
     (let f = \<lfloor>x\<rfloor>; r = x - of_int f
      in if r < 1 / 2 then f
         else if 1 / 2 < r then f + 1
         else if even f then f else f + 1)"

text \<open>The binary exponent \<open>e\<close> of a non-zero rational: \<open>2\<^sup>e \<le> \<bar>x\<bar> < 2\<^sup>e\<^sup>+\<^sup>1\<close>.\<close>

definition binary_exponent :: "rat \<Rightarrow> int" where
  "binary_exponent x =
     (let (p, q) = quotient_of \<bar>x\<bar>;
          d = int (floorlog 2 (nat p)) - int (floorlog 2 (nat q))
      in if 2 powi d \<le> \<bar>x\<bar> then d else d - 1)"

definition f64_round :: "rat \<Rightarrow> float64" where
  "f64_round x =
     (if x = 0 then 0
      else let ulp = 2 powi (binary_exponent x - 52)
           in of_int (round_half_even (x / ulp)) * ulp)"

definition f64_of_int :: "go_int \<Rightarrow> float64" where
  "f64_of_int w = f64_round (of_int (sint w))"

definition f64_div :: "float64 \<Rightarrow> float64 \<Rightarrow> float64" where
  "f64_div a b = f64_round (a / b)"

definition f64_mul :: "float64 \<Rightarrow> float64 \<Rightarrow> float64" where
  "f64_mul a b = f64_round (a * b)"

text \<open>
  \<^verbatim>\<open>%.1f\<close>: the exact decimal expansion of the value, rounded to one digit after the
  point, a tie going to the even digit (\<^verbatim>\<open>strconv\<close> rounds the exact decimal value);
  the sign of a negative value is kept.
\<close>

definition tenths :: "float64 \<Rightarrow> int" where
  "tenths x = round_half_even (\<bar>x\<bar> * 10)"

definition fmt_f1 :: "float64 \<Rightarrow> string" where
  "fmt_f1 x =
     (let n = tenths x
      in (if x < 0 then ''-'' else []) @ digits10 (nat (n div 10)) @ ''.'' @ digits10 (nat (n mod 10)))"

section \<open>display\<close>

text \<open>
  \<^verbatim>\<open>float64(s.totalTokens)/float64(MaxTokens)*100\<close>, the argument of \<^verbatim>\<open>%.1f\<close>.
\<close>

definition context_usage :: "SessionStats \<Rightarrow> float64" where
  "context_usage s = f64_mul (f64_div (f64_of_int (totalTokens s)) (f64_of_int MaxTokens)) 100"

text \<open>
  \<^verbatim>\<open>func (s *SessionStats) display()\<close> reads the three fields and writes six lines to
  standard output; the model returns the text written. \<^verbatim>\<open>fmt.Println\<close> adds a newline
  to the newline its argument ends with.
\<close>

definition display :: "SessionStats \<Rightarrow> string" where
  "display s =
     ''\<newline>=== Session Stats ===\<newline>'' @
     ''Messages: '' @ fmt_d (messageCount s) @ ''\<newline>'' @
     ''Tokens Used: '' @ fmt_d (totalTokens s) @ ''\<newline>'' @
     ''Tokens Remaining: '' @ fmt_d (remainingTokens s) @ ''\<newline>'' @
     ''Context Usage: '' @ fmt_f1 (context_usage s) @ ''%\<newline>'' @
     ''===================\<newline>'' @ ''\<newline>''"

section \<open>The tokenizer\<close>

text \<open>
  The \<^verbatim>\<open>tiktoken\<close> library is outside the repository. \<^verbatim>\<open>tiktoken.GetEncoding\<close> returns
  an encoder or an error; the encoder's \<^verbatim>\<open>Encode(text, nil, nil)\<close> returns the token ids.
  The library's answer is a parameter of \<^verbatim>\<open>countTokens\<close>. Go's pair \<^verbatim>\<open>(int, error)\<close> is
  kept as a pair: the caller that drops the error still reads the count.
\<close>

datatype error = Error string

type_synonym Tiktoken = "string \<Rightarrow> int list"

type_synonym GetEncoding = "string \<Rightarrow> error + Tiktoken"

definition countTokens :: "GetEncoding \<Rightarrow> string \<Rightarrow> go_int \<times> error option" where
  "countTokens getEncoding text =
     (let encoding = ''cl100k_base''
      in case getEncoding encoding of
           Inl err \<Rightarrow> (0, Some err)
         | Inr tkm \<Rightarrow> (let tokens = tkm text in (of_nat (length tokens), None)))"

section \<open>Transcript and completion stream\<close>

datatype ChatCompletionMessageParamUnion =
  SystemMessage string | UserMessage string | AssistantMessage string

text \<open>
  One event of the stream carries a list of choices; the program reads only
  \<^verbatim>\<open>Choices[0].Delta.Content\<close>, so a choice is its content. After the last event
  \<^verbatim>\<open>stream.Err()\<close> is \<^verbatim>\<open>nil\<close> or the error that ended the stream.
\<close>

record ChatCompletionChunk =
  Choices :: "string list"

record Stream =
  events :: "ChatCompletionChunk list"
  Err :: "error option"

section \<open>The conversation loop\<close>

record state =
  messages :: "ChatCompletionMessageParamUnion list"
  stats :: SessionStats
  stdout :: string
  stderr :: string

text \<open>
  What one iteration of the loop receives from outside, in the order it asks: the line
  \<^verbatim>\<open>scanner.Text()\<close> returns, the tokenizer library's answer while the input is counted,
  the stream the completion endpoint returns for the transcript it is sent, and the
  tokenizer library's answer while the response is counted.
\<close>

record turn_io =
  scanner_Text :: string
  GetEncoding_input :: GetEncoding
  NewStreaming :: "ChatCompletionMessageParamUnion list \<Rightarrow> Stream"
  GetEncoding_response :: GetEncoding

text \<open>
  \<^verbatim>\<open>for stream.Next() { ... }\<close>: each event with at least one choice has the content of
  its first choice printed and appended to the builder. The two strings threaded
  through are standard output and \<^verbatim>\<open>assistantResponse\<close>.
\<close>

fun stream_loop :: "ChatCompletionChunk list \<Rightarrow> string \<Rightarrow> string \<Rightarrow> string \<times> string" where
  "stream_loop [] out assistantResponse = (out, assistantResponse)"
| "stream_loop (evt # rest) out assistantResponse =
     (case Choices evt of
        [] \<Rightarrow> stream_loop rest out assistantResponse
      | content # _ \<Rightarrow> stream_loop rest (out @ content) (assistantResponse @ content))"

text \<open>
  How the body of \<^verbatim>\<open>for { ... }\<close> ends: \<open>Continue\<close> is the next iteration (a
  \<^verbatim>\<open>continue\<close> statement or the end of the body), \<open>Break\<close> is the \<^verbatim>\<open>break\<close> after which
  \<^verbatim>\<open>main\<close> returns.
\<close>

datatype outcome = Continue state | Break state

definition prompt :: string where
  "prompt = ''\<newline>Enter your question (or 'q' to exit): ''"

definition warning :: "go_int \<Rightarrow> go_int \<Rightarrow> string" where
  "warning used inputTokens =
     ''Warning: Adding this input would exceed token limit ('' @ fmt_d used @ '' + '' @
     fmt_d inputTokens @ '' > '' @ fmt_d MaxTokens @ '')\<newline>''"

definition turn :: "turn_io \<Rightarrow> state \<Rightarrow> outcome" where
  "turn io s =
     (let s = s\<lparr>stdout := stdout s @ prompt\<rparr>;
          input = scanner_Text io
      in if input = ''q''
         then Break (s\<lparr>stdout := stdout s @ ''Final Stats:\<newline>'' @ display (stats s)\<rparr>)
         else
           case countTokens (GetEncoding_input io) input of
             (inputTokens, Some err) \<Rightarrow>
               (case err of Error msg \<Rightarrow>
                  Continue (s\<lparr>stderr := stderr s @ ''Error counting tokens: '' @ msg @ ''\<newline>''\<rparr>))
           | (inputTokens, None) \<Rightarrow>
               if MaxTokens <s inputTokens + totalTokens (stats s)
               then Continue (s\<lparr>stdout := stdout s @ warning (totalTokens (stats s)) inputTokens\<rparr>)
               else
                 let s = s\<lparr>messages := messages s @ [UserMessage input]\<rparr>;
                     s = s\<lparr>stats := update (stats s) inputTokens\<rparr>;
                     s = s\<lparr>stdout := stdout s @ ''\<newline>> '' @ input @ ''\<newline>\<newline>''\<rparr>;
                     stream = NewStreaming io (messages s);
                     (out, assistantResponse) = stream_loop (events stream) (stdout s) [];
                     s = s\<lparr>stdout := out @ ''\<newline>''\<rparr>;
                     s = s\<lparr>messages := messages s @ [AssistantMessage assistantResponse]\<rparr>;
                     (responseTokens, _) = countTokens (GetEncoding_response io) assistantResponse;
                     s = s\<lparr>stats := update (stats s) responseTokens\<rparr>;
                     s = s\<lparr>stdout := stdout s @ display (stats s)\<rparr>
                 in (case Err stream of
                       Some (Error msg) \<Rightarrow>
                         Continue (s\<lparr>stderr := stderr s @ ''Error from OpenAI: '' @ msg @ ''\<newline>''\<rparr>)
                     | None \<Rightarrow> Continue s))"

text \<open>
  The loop over the lines the console supplies. When the supplied lines are used up the
  program is blocked in \<^verbatim>\<open>scanner.Scan()\<close>: the result is \<open>Continue\<close> with the state
  reached.
\<close>

fun run :: "turn_io list \<Rightarrow> state \<Rightarrow> outcome" where
  "run [] s = Continue s"
| "run (io # ios) s =
     (case turn io s of
        Break s' \<Rightarrow> Break s'
      | Continue s' \<Rightarrow> run ios s')"

definition initial_state :: state where
  "initial_state =
     \<lparr>messages = [SystemMessage ''You are a helpful assistant.''],
      stats = fresh_stats, stdout = [], stderr = []\<rparr>"

definition main :: "turn_io list \<Rightarrow> outcome" where
  "main ios = run ios initial_state"

text \<open>
  A Go process whose \<^verbatim>\<open>main\<close> returns exits with status 0; while the loop runs there is
  no exit status.
\<close>

fun exit_status :: "outcome \<Rightarrow> int option" where
  "exit_status (Break s) = Some 0"
| "exit_status (Continue s) = None"

fun state_of :: "outcome \<Rightarrow> state" where
  "state_of (Break s) = s"
| "state_of (Continue s) = s"

section \<open>Notions used in the statements\<close>

text \<open>
  The text the streaming loop assembles from a list of events: the content of the first
  choice of every event that has a choice, in order.
\<close>

definition assembled :: "ChatCompletionChunk list \<Rightarrow> string" where
  "assembled evs =
     concat (map (\<lambda>evt. case Choices evt of [] \<Rightarrow> [] | content # _ \<Rightarrow> content) evs)"

text \<open>
  For an iteration that reaches the completion request: the transcript it sends, the
  stream it gets back, the assistant text it assembles, and the two token counts it
  passes to \<^verbatim>\<open>update\<close>.
\<close>

definition request :: "turn_io \<Rightarrow> state \<Rightarrow> ChatCompletionMessageParamUnion list" where
  "request io s = messages s @ [UserMessage (scanner_Text io)]"

definition reply :: "turn_io \<Rightarrow> state \<Rightarrow> Stream" where
  "reply io s = NewStreaming io (request io s)"

definition response_text :: "turn_io \<Rightarrow> state \<Rightarrow> string" where
  "response_text io s = assembled (events (reply io s))"

definition input_count :: "turn_io \<Rightarrow> go_int \<times> error option" where
  "input_count io = countTokens (GetEncoding_input io) (scanner_Text io)"

definition response_count :: "turn_io \<Rightarrow> state \<Rightarrow> go_int \<times> error option" where
  "response_count io s = countTokens (GetEncoding_response io) (response_text io s)"

text \<open>
  An iteration passes the budget check when the line is not the quit token, the input
  was counted without an error, and the comparison of line 98 is false.
\<close>

definition passes_budget_check :: "turn_io \<Rightarrow> state \<Rightarrow> bool" where
  "passes_budget_check io s =
     (scanner_Text io \<noteq> ''q'' \<and> snd (input_count io) = None \<and>
      \<not> MaxTokens <s fst (input_count io) + totalTokens (stats s))"

text \<open>What the program writes to the diagnostic stream for a stream that ended in an error.\<close>

definition stream_error_log :: "Stream \<Rightarrow> string" where
  "stream_error_log stream =
     (case Err stream of
        None \<Rightarrow> []
      | Some (Error msg) \<Rightarrow> ''Error from OpenAI: '' @ msg @ ''\<newline>'')"

section \<open>Concrete surroundings\<close>

text \<open>
  Stand-ins for the two outside services, used to run the model on concrete input: a
  tokenizer that emits one token for the text's first word and one for every space, a
  tokenizer library whose encoding cannot be loaded, and completion streams that
  deliver the fragments \<^verbatim>\<open>"Hello"\<close> and \<^verbatim>\<open>" world"\<close>, nothing at all, or one fragment
  followed by an error.
\<close>

definition toy_encode :: Tiktoken where
  "toy_encode text = (if text = [] then [] else 0 # map (\<lambda>c. 1) (filter (\<lambda>c. c = CHR '' '') text))"

definition toy_tiktoken :: GetEncoding where
  "toy_tiktoken encoding = Inr toy_encode"

definition unavailable_tiktoken :: GetEncoding where
  "unavailable_tiktoken encoding = Inl (Error ''encoding unavailable'')"

definition hello_stream :: Stream where
  "hello_stream = \<lparr>events = [\<lparr>Choices = [''Hello'']\<rparr>, \<lparr>Choices = ['' world'']\<rparr>], Err = None\<rparr>"

definition empty_stream :: Stream where
  "empty_stream = \<lparr>events = [], Err = None\<rparr>"

definition broken_stream :: Stream where
  "broken_stream = \<lparr>events = [\<lparr>Choices = [''Hello'']\<rparr>], Err = Some (Error ''unexpected EOF'')\<rparr>"

definition question :: string where
  "question = ''Please tell me what the capital city of France is''"

definition sample_io :: turn_io where
  "sample_io =
     \<lparr>scanner_Text = question, GetEncoding_input = toy_tiktoken,
      NewStreaming = (\<lambda>transcript. hello_stream), GetEncoding_response = toy_tiktoken\<rparr>"

definition quit_io :: turn_io where
  "quit_io = sample_io\<lparr>scanner_Text := ''q''\<rparr>"

text \<open>A session that has used 4090 of its 4096 tokens.\<close>

definition nearly_full :: state where
  "nearly_full =
     initial_state\<lparr>stats := \<lparr>totalTokens = 4090, messageCount = 6, remainingTokens = 6\<rparr>\<rparr>"

section \<open>Properties of update\<close>

lemma update_fields:
  "totalTokens (update s n) = totalTokens s + n"
  "messageCount (update s n) = messageCount s + 1"
  "remainingTokens (update s n) = MaxTokens - (totalTokens s + n)"
  by (simp_all add: update_def Let_def)

text \<open>
  Claim C6. For all machine integers \<open>a\<close> and \<open>b\<close> and every tracker state, \<open>update a\<close>
  followed by \<open>update b\<close> gives the total and the remaining tokens of one
  \<open>update (a + b)\<close>, and a message count that is two more than before instead of one
  more. The sums are Go's wrapping sums, so the statement holds with no side condition.
\<close>

theorem update_composes_additively:
  "totalTokens (update (update s a) b) = totalTokens (update s (a + b)) \<and>
   remainingTokens (update (update s a) b) = remainingTokens (update s (a + b)) \<and>
   messageCount (update (update s a) b) = messageCount s + 2 \<and>
   messageCount (update s (a + b)) = messageCount s + 1 \<and>
   update (update s a) b = (update s (a + b))\<lparr>messageCount := messageCount s + 2\<rparr>"
  by (simp add: update_def Let_def add.assoc)

section \<open>Machine arithmetic without wrap-around\<close>

lemma sint_MaxTokens: "sint MaxTokens = 4096"
  by (simp add: MaxTokens_def)

lemma sint64_range: "- (2 ^ 63) \<le> sint (w :: go_int) \<and> sint w < 2 ^ 63"
  using sint_ge [of w] sint_lt [of w] by simp

lemma sint_sub_no_wrap:
  fixes a b :: go_int
  assumes "- (2 ^ 63) \<le> sint a - sint b" and "sint a - sint b < 2 ^ 63"
  shows "sint (a - b) = sint a - sint b"
  using assms by (simp add: sint_word_ariths signed_take_bit_int_eq_self)

lemma sint_add_no_wrap:
  fixes a b :: go_int
  assumes "- (2 ^ 63) \<le> sint a + sint b" and "sint a + sint b < 2 ^ 63"
  shows "sint (a + b) = sint a + sint b"
  using assms by (simp add: sint_word_ariths signed_take_bit_int_eq_self)

text \<open>
  Claim C5. For every non-negative \<open>t\<close>, one \<open>update t\<close> on the fresh tracker gives
  \<open>totalTokens = t\<close>, \<open>messageCount = 1\<close> and \<open>remainingTokens = MaxTokens - t\<close>. The
  subtraction does not wrap: the value read as a mathematical integer is \<open>4096 - t\<close>,
  which is negative exactly when \<open>t\<close> exceeds 4096, so nothing clamps it at zero.
\<close>

theorem update_fresh:
  assumes "0 \<le>s t"
  shows "totalTokens (update fresh_stats t) = t \<and>
         messageCount (update fresh_stats t) = 1 \<and>
         remainingTokens (update fresh_stats t) = MaxTokens - t \<and>
         sint (remainingTokens (update fresh_stats t)) = 4096 - sint t \<and>
         (sint (remainingTokens (update fresh_stats t)) < 0) = (4096 < sint t)"
proof -
  from assms have nonneg: "0 \<le> sint t"
    by (simp add: word_sle_eq)
  have "sint (MaxTokens - t) = sint MaxTokens - sint t"
    using nonneg sint64_range [of t] by (intro sint_sub_no_wrap) (simp_all add: sint_MaxTokens)
  then have "sint (MaxTokens - t) = 4096 - sint t"
    by (simp add: sint_MaxTokens)
  then show ?thesis
    by (simp add: update_fields fresh_stats_def)
qed

theorem update_fresh_witness:
  "(0::go_int) \<le>s 5000 \<and> totalTokens (update fresh_stats 5000) = 5000 \<and>
   messageCount (update fresh_stats 5000) = 1 \<and>
   sint (remainingTokens (update fresh_stats 5000)) = - 904"
proof -
  have h: "(0::go_int) \<le>s 5000"
    by (simp add: word_sle_eq)
  show ?thesis
    using h update_fresh [OF h] by (simp add: update_fields fresh_stats_def MaxTokens_def)
qed

section \<open>One iteration of the loop, case by case\<close>

lemma stream_loop_eq:
  "stream_loop evs out r = (out @ assembled evs, r @ assembled evs)"
  by (induction evs arbitrary: out r) (auto simp: assembled_def split: list.splits)

lemma turn_quit:
  "scanner_Text io = ''q'' \<Longrightarrow>
   turn io s = Break (s\<lparr>stdout := stdout s @ prompt @ ''Final Stats:\<newline>'' @ display (stats s)\<rparr>)"
  by (simp add: turn_def Let_def)

lemma turn_count_error:
  "scanner_Text io \<noteq> ''q'' \<Longrightarrow> input_count io = (k, Some (Error msg)) \<Longrightarrow>
   turn io s = Continue (s\<lparr>stdout := stdout s @ prompt,
      stderr := stderr s @ ''Error counting tokens: '' @ msg @ ''\<newline>''\<rparr>)"
  by (simp add: turn_def Let_def input_count_def)

lemma turn_rejected:
  "scanner_Text io \<noteq> ''q'' \<Longrightarrow> input_count io = (k, None) \<Longrightarrow>
   MaxTokens <s k + totalTokens (stats s) \<Longrightarrow>
   turn io s = Continue (s\<lparr>stdout := stdout s @ prompt @ warning (totalTokens (stats s)) k\<rparr>)"
  by (simp add: turn_def Let_def input_count_def)

lemma turn_accepted:
  assumes "passes_budget_check io s"
  shows "turn io s = Continue (s\<lparr>
      messages := messages s @ [UserMessage (scanner_Text io), AssistantMessage (response_text io s)],
      stats := update (update (stats s) (fst (input_count io))) (fst (response_count io s)),
      stdout := stdout s @ prompt @ ''\<newline>> '' @ scanner_Text io @ ''\<newline>\<newline>'' @
                response_text io s @ ''\<newline>'' @
                display (update (update (stats s) (fst (input_count io))) (fst (response_count io s))),
      stderr := stderr s @ stream_error_log (reply io s)\<rparr>)"
proof -
  obtain k where k: "countTokens (GetEncoding_input io) (scanner_Text io) = (k, None)"
    using assms by (cases "input_count io") (simp add: passes_budget_check_def input_count_def)
  obtain r e where r: "countTokens (GetEncoding_response io)
      (assembled (events (NewStreaming io (messages s @ [UserMessage (scanner_Text io)])))) = (r, e)"
    by (cases "countTokens (GetEncoding_response io)
      (assembled (events (NewStreaming io (messages s @ [UserMessage (scanner_Text io)]))))")
  from assms k have q: "scanner_Text io \<noteq> ''q''" and b: "\<not> MaxTokens <s k + totalTokens (stats s)"
    by (simp_all add: passes_budget_check_def input_count_def)
  show ?thesis
    using q b
    by (simp add: turn_def Let_def stream_loop_eq k r input_count_def
        response_count_def response_text_def reply_def request_def stream_error_log_def
        split: option.splits error.splits)
qed

end
